theory Spec2Isabelle
  imports Main "HOL-Library.Word"
begin

section \<open>Python values and exceptions\<close>

text \<open>
  The service is one Python module, \<^verbatim>\<open>Cloud.py\<close>: a Flask application with two routes
  over a BigQuery client. The values that flow through it are the values that
  \<^verbatim>\<open>request.get_json()\<close> can produce (the JSON types as Python objects), the
  \<^verbatim>\<open>datetime\<close> read from the clock, and the dictionaries and lists the handlers build.

  A string is the list of the bytes of its UTF-8 encoding; a lone surrogate, which has
  none, is written as the three bytes of its generalised encoding (U+D800 as ED A0 80).
  A float is its IEEE 754 binary64 bit pattern; no operation of the module looks inside
  one. A dictionary is a list of key-value pairs in insertion order; the mapping it
  stands for is \<^term>\<open>map_of\<close> of that list. A \<^verbatim>\<open>datetime\<close> is its number of microseconds
  since the epoch.
\<close>

datatype pyval =
    PNone
  | PBool bool
  | PInt int
  | PFloat "64 word"
  | PStr string
  | PDatetime int
  | PList "pyval list"
  | PDict "(string \<times> pyval) list"

text \<open>
  An exception is either raised by the interpreter on a value of the wrong type
  (\<^verbatim>\<open>TypeError\<close>), on a missing key (\<^verbatim>\<open>KeyError\<close>) or on a string that cannot be encoded
  (\<^verbatim>\<open>UnicodeEncodeError\<close>), or raised by Flask or by the BigQuery SDK; the latter carries
  the text that \<^verbatim>\<open>str(e)\<close> yields.
\<close>

datatype exn =
    TypeError
  | KeyError string
  | UnicodeEncodeError
  | Raised string

subsection \<open>The operators \<^verbatim>\<open>in\<close> and \<^verbatim>\<open>[]\<close> with a string on the left\<close>

text \<open>
  \<^verbatim>\<open>field in data\<close> with \<^verbatim>\<open>field\<close> a string: key membership on a dictionary, element
  equality on a list (a string equals only an equal string), substring search on a
  string, and \<^verbatim>\<open>TypeError\<close> on \<^verbatim>\<open>None\<close>, booleans and numbers, which are not containers.
\<close>

fun is_substring :: "string \<Rightarrow> string \<Rightarrow> bool" where
  "is_substring s [] = (s = [])"
| "is_substring s (c # cs) = (take (length s) (c # cs) = s \<or> is_substring s cs)"

fun py_in :: "string \<Rightarrow> pyval \<Rightarrow> exn + bool" where
  "py_in field (PDict kvs) = Inr (map_of kvs field \<noteq> None)"
| "py_in field (PList xs) = Inr (PStr field \<in> set xs)"
| "py_in field (PStr s) = Inr (is_substring field s)"
| "py_in field PNone = Inl TypeError"
| "py_in field (PBool b) = Inl TypeError"
| "py_in field (PInt i) = Inl TypeError"
| "py_in field (PFloat x) = Inl TypeError"
| "py_in field (PDatetime t) = Inl TypeError"

text \<open>
  \<^verbatim>\<open>data[field]\<close> with \<^verbatim>\<open>field\<close> a string: the value stored under the key of a
  dictionary or \<^verbatim>\<open>KeyError\<close>; \<^verbatim>\<open>TypeError\<close> on everything else (lists and strings take
  integer indices only, the other types are not subscriptable).
\<close>

fun py_getitem :: "pyval \<Rightarrow> string \<Rightarrow> exn + pyval" where
  "py_getitem (PDict kvs) field =
     (case map_of kvs field of None \<Rightarrow> Inl (KeyError field) | Some v \<Rightarrow> Inr v)"
| "py_getitem _ field = Inl TypeError"

section \<open>The validator\<close>

text \<open>
  \<^verbatim>\<open>
  def validate_click_data(data: Dict[str, Any]) -> bool:
      required_fields = ['user_id', 'tab_name', 'session_id', 'app_version', 'device_info']
      return all(field in data for field in required_fields)
  \<close>
  \<^verbatim>\<open>all\<close> over a generator tests the fields in order, stops at the first one that is
  absent, and lets an exception of the membership test through.
\<close>

definition required_fields :: "string list" where
  "required_fields = [''user_id'', ''tab_name'', ''session_id'', ''app_version'', ''device_info'']"

fun all_in :: "string list \<Rightarrow> pyval \<Rightarrow> exn + bool" where
  "all_in [] data = Inr True"
| "all_in (field # fields) data =
     (case py_in field data of
        Inl e \<Rightarrow> Inl e
      | Inr False \<Rightarrow> Inr False
      | Inr True \<Rightarrow> all_in fields data)"

definition validate_click_data :: "pyval \<Rightarrow> exn + bool" where
  "validate_click_data data = all_in required_fields data"

section \<open>Configuration\<close>

definition PROJECT_ID :: string where
  "PROJECT_ID = ''your-project-id''"

definition DATASET_ID :: string where
  "DATASET_ID = ''analytics_dataset''"

definition TABLE_ID :: string where
  "TABLE_ID = ''tab_clicks''"

section \<open>pandas and the BigQuery SDK as the environment\<close>

text \<open>
  The module reaches the warehouse through four SDK calls:
  \<^verbatim>\<open>client.load_table_from_dataframe\<close>, \<^verbatim>\<open>load_job.result\<close>, \<^verbatim>\<open>client.query\<close> and
  \<^verbatim>\<open>query_job.result\<close>. What each of them answers (a value, or an exception) is decided
  outside the module. A job is a handle. The rows a query job yields have the two
  attributes the handler reads.

  A \<^verbatim>\<open>DataFrame\<close> built from a list of dictionaries is the list of its rows, each row the
  list of its column-value pairs. The constructor \<^verbatim>\<open>pd.DataFrame\<close> can raise instead of
  building the frame (on a string that holds a lone surrogate it raises
  \<^verbatim>\<open>UnicodeEncodeError\<close>); on which lists of dictionaries it does, and with what exception,
  is decided by pandas, outside the module as well.

  So the libraries are a record of five functions, and every handler is parametric in it.
\<close>

datatype write_disposition = WRITE_APPEND | WRITE_TRUNCATE | WRITE_EMPTY

datatype schema_field = SchemaField string string

record load_job_config =
  write_disposition :: write_disposition
  schema :: "schema_field list"

datatype query_parameter = ScalarQueryParameter string string pyval

record query_job_config =
  query_parameters :: "query_parameter list"

record row =
  tab_name :: pyval
  click_count :: pyval

type_synonym job = nat

type_synonym dataframe = "(string \<times> pyval) list list"

record libraries =
  frame_error :: "(string \<times> pyval) list list \<Rightarrow> exn option"
  load_table_from_dataframe :: "dataframe \<Rightarrow> string \<Rightarrow> load_job_config \<Rightarrow> exn + job"
  load_job_result :: "job \<Rightarrow> exn + unit"
  client_query :: "string \<Rightarrow> query_job_config \<Rightarrow> exn + job"
  query_job_result :: "job \<Rightarrow> exn + row list"

text \<open>
  What a handler does to the outside is recorded as a list of effects, in the order they
  happen: the SDK calls with their arguments, and the log lines.
  \<^term>\<open>Logger_error prefix e\<close> is \<^verbatim>\<open>logger.error(f"<prefix>{str(e)}")\<close>.
\<close>

datatype effect =
    Load_table_from_dataframe dataframe string load_job_config
  | Load_job_result job
  | Client_query string query_job_config
  | Query_job_result job
  | Logger_info string
  | Logger_error string exn

type_synonym response = "pyval \<times> nat"

section \<open>\<^verbatim>\<open>BigQueryClient.load_data\<close>\<close>

fun str_nat :: "nat \<Rightarrow> string" where
  "str_nat n =
     (if n < 10 then [char_of (48 + n)]
      else str_nat (n div 10) @ [char_of (48 + n mod 10)])"

definition load_data ::
  "libraries \<Rightarrow> dataframe \<Rightarrow> string \<Rightarrow> string \<Rightarrow> (exn + unit) \<times> effect list"
where
  "load_data bq data dataset_id table_id =
     (let table_ref = PROJECT_ID @ ''.'' @ dataset_id @ ''.'' @ table_id;
          job_config = \<lparr>write_disposition = WRITE_APPEND,
                        schema = [SchemaField ''user_id'' ''STRING'',
                                  SchemaField ''tab_name'' ''STRING'',
                                  SchemaField ''click_timestamp'' ''TIMESTAMP'',
                                  SchemaField ''session_id'' ''STRING'',
                                  SchemaField ''app_version'' ''STRING'',
                                  SchemaField ''device_info'' ''STRING'']\<rparr>;
          submitted = Load_table_from_dataframe data table_ref job_config
      in case load_table_from_dataframe bq data table_ref job_config of
           Inl e \<Rightarrow>
             (Inl e, [submitted, Logger_error ''Failed to load data to BigQuery: '' e])
         | Inr load_job \<Rightarrow>
             (case load_job_result bq load_job of
                Inl e \<Rightarrow>
                  (Inl e, [submitted, Load_job_result load_job,
                           Logger_error ''Failed to load data to BigQuery: '' e])
              | Inr _ \<Rightarrow>
                  (Inr (), [submitted, Load_job_result load_job,
                            Logger_info (''Successfully loaded '' @ str_nat (length data)
                                         @ '' rows into '' @ table_ref)])))"

section \<open>\<^verbatim>\<open>track_click\<close>\<close>

text \<open>
  The dictionary display of lines 83 to 90 evaluates its values top to bottom; each
  subscript may raise. \<^verbatim>\<open>datetime.utcnow()\<close> is the reading \<open>now\<close> of the system clock.
\<close>

definition click_row :: "pyval \<Rightarrow> int \<Rightarrow> exn + (string \<times> pyval) list" where
  "click_row data now =
     (case py_getitem data ''user_id'' of Inl e \<Rightarrow> Inl e | Inr u \<Rightarrow>
      case py_getitem data ''tab_name'' of Inl e \<Rightarrow> Inl e | Inr t \<Rightarrow>
      case py_getitem data ''session_id'' of Inl e \<Rightarrow> Inl e | Inr s \<Rightarrow>
      case py_getitem data ''app_version'' of Inl e \<Rightarrow> Inl e | Inr a \<Rightarrow>
      case py_getitem data ''device_info'' of Inl e \<Rightarrow> Inl e | Inr d \<Rightarrow>
        Inr [(''user_id'', u),
             (''tab_name'', t),
             (''click_timestamp'', PDatetime now),
             (''session_id'', s),
             (''app_version'', a),
             (''device_info'', d)])"

text \<open>
  \<^verbatim>\<open>pd.DataFrame([{...}])\<close>: the frame whose rows are the dictionaries given, or the
  exception of the constructor.
\<close>

definition DataFrame :: "libraries \<Rightarrow> (string \<times> pyval) list list \<Rightarrow> exn + dataframe" where
  "DataFrame bq records =
     (case frame_error bq records of Some e \<Rightarrow> Inl e | None \<Rightarrow> Inr records)"

text \<open>
  The body of the \<^verbatim>\<open>try\<close>. Its third argument is what \<^verbatim>\<open>request.get_json()\<close> does on the
  request at hand: the parsed body, or the exception Flask raises.
\<close>

definition track_click_try ::
  "libraries \<Rightarrow> int \<Rightarrow> exn + pyval \<Rightarrow> (exn + response) \<times> effect list"
where
  "track_click_try bq now get_json =
     (case get_json of
        Inl e \<Rightarrow> (Inl e, [])
      | Inr data \<Rightarrow>
          (case validate_click_data data of
             Inl e \<Rightarrow> (Inl e, [])
           | Inr False \<Rightarrow>
               (Inr (PDict [(''error'', PStr ''Missing required fields'')], 400), [])
           | Inr True \<Rightarrow>
               (case click_row data now of
                  Inl e \<Rightarrow> (Inl e, [])
                | Inr r \<Rightarrow>
                    (case DataFrame bq [r] of
                       Inl e \<Rightarrow> (Inl e, [])
                     | Inr df \<Rightarrow>
                         (case load_data bq df DATASET_ID TABLE_ID of
                            (Inl e, effects) \<Rightarrow> (Inl e, effects)
                          | (Inr _, effects) \<Rightarrow>
                              (Inr (PDict [(''status'', PStr ''success''),
                                           (''message'',
                                            PStr ''Click event recorded successfully'')],
                                    200),
                               effects))))))"

definition track_click ::
  "libraries \<Rightarrow> int \<Rightarrow> exn + pyval \<Rightarrow> response \<times> effect list"
where
  "track_click bq now get_json =
     (case track_click_try bq now get_json of
        (Inr resp, effects) \<Rightarrow> (resp, effects)
      | (Inl e, effects) \<Rightarrow>
          ((PDict [(''error'', PStr ''Internal server error'')], 500),
           effects @ [Logger_error ''Error processing click event: '' e]))"

section \<open>\<^verbatim>\<open>get_user_clicks\<close>\<close>

text \<open>
  The f-string of lines 109 to 115 interpolates the three configuration constants and
  nothing else.
\<close>

definition query :: string where
  "query =
     ''\<newline>        SELECT tab_name, COUNT(*) as click_count'' @
     ''\<newline>        FROM `'' @ PROJECT_ID @ ''.'' @ DATASET_ID @ ''.'' @ TABLE_ID @ ''`'' @
     ''\<newline>        WHERE user_id = @user_id'' @
     ''\<newline>        GROUP BY tab_name'' @
     ''\<newline>        ORDER BY click_count DESC'' @
     ''\<newline>        ''"

definition click_stat :: "row \<Rightarrow> pyval" where
  "click_stat r = PDict [(''tab_name'', tab_name r), (''click_count'', click_count r)]"

definition get_user_clicks_try ::
  "libraries \<Rightarrow> string \<Rightarrow> (exn + response) \<times> effect list"
where
  "get_user_clicks_try bq user_id =
     (let job_config =
            \<lparr>query_parameters = [ScalarQueryParameter ''user_id'' ''STRING'' (PStr user_id)]\<rparr>;
          sent = Client_query query job_config
      in case client_query bq query job_config of
           Inl e \<Rightarrow> (Inl e, [sent])
         | Inr query_job \<Rightarrow>
             (case query_job_result bq query_job of
                Inl e \<Rightarrow> (Inl e, [sent, Query_job_result query_job])
              | Inr results \<Rightarrow>
                  (Inr (PDict [(''user_id'', PStr user_id),
                               (''click_statistics'', PList (map click_stat results))],
                        200),
                   [sent, Query_job_result query_job])))"

definition get_user_clicks ::
  "libraries \<Rightarrow> string \<Rightarrow> response \<times> effect list"
where
  "get_user_clicks bq user_id =
     (case get_user_clicks_try bq user_id of
        (Inr resp, effects) \<Rightarrow> (resp, effects)
      | (Inl e, effects) \<Rightarrow>
          ((PDict [(''error'', PStr ''Internal server error'')], 500),
           effects @ [Logger_error ''Error retrieving click statistics: '' e]))"

section \<open>The query engine of the warehouse\<close>

text \<open>
  Modelled from the spec: the query engine of the warehouse, which runs the statement the
  read handler sends and is no part of the repository. The specification says of that
  statement that it is a parameterized aggregate query, scoped to one user by a bound
  parameter, grouped by \<^verbatim>\<open>tab_name\<close> with a count for each group and ordered by
  \<^verbatim>\<open>click_count\<close> descending, and that the aggregate is computed on demand by the
  warehouse's query engine from the rows appended to the table. The engine below reads
  the text it is given word by word, accepts statements of that one shape,
  \<^verbatim>\<open>SELECT c, COUNT(*) as a FROM `t` WHERE w = @p GROUP BY g ORDER BY o DESC\<close> (or \<^verbatim>\<open>ASC\<close>),
  and computes what their clauses say over the rows of the table named. A table holds the
  rows of the frames loaded into it.
\<close>











section \<open>Observations on the effects\<close>

text \<open>The load submissions and the queries among the effects of a call, in order.\<close>

fun loads :: "effect list \<Rightarrow> (dataframe \<times> string \<times> load_job_config) list" where
  "loads [] = []"
| "loads (Load_table_from_dataframe data table_ref job_config # es) =
     (data, table_ref, job_config) # loads es"
| "loads (_ # es) = loads es"

fun queries :: "effect list \<Rightarrow> (string \<times> query_job_config) list" where
  "queries [] = []"
| "queries (Client_query text job_config # es) = (text, job_config) # queries es"
| "queries (_ # es) = queries es"

text \<open>The timestamps of the rows handed to the warehouse.\<close>

definition timestamp_of :: "(string \<times> pyval) list \<Rightarrow> int list" where
  "timestamp_of r =
     (case map_of r ''click_timestamp'' of Some (PDatetime t) \<Rightarrow> [t] | _ \<Rightarrow> [])"

definition click_timestamps :: "effect list \<Rightarrow> int list" where
  "click_timestamps effects =
     concat (map (\<lambda>(data, table_ref, job_config). concat (map timestamp_of data))
                 (loads effects))"

section \<open>Requests handled one after another\<close>

text \<open>
  Flask calls \<^verbatim>\<open>track_click\<close> once for each request. A call meets its own environment:
  what the libraries answer, the reading of the clock, and the outcome of
  \<^verbatim>\<open>request.get_json()\<close>.
\<close>

type_synonym ingest_call = "libraries \<times> int \<times> (exn + pyval)"

fun track_clicks :: "ingest_call list \<Rightarrow> (response \<times> effect list) list" where
  "track_clicks [] = []"
| "track_clicks ((bq, now, get_json) # calls) =
     track_click bq now get_json # track_clicks calls"

section \<open>Libraries with fixed answers\<close>

text \<open>
  For concrete instances: a pandas that builds every frame, with a client whose four
  calls answer the same whatever their arguments; and the same with a pandas that raises
  \<^verbatim>\<open>UnicodeEncodeError\<close> when a string of the dictionaries holds a surrogate (the byte ED
  followed by a byte from A0 on).
\<close>

definition answering ::
  "exn + job \<Rightarrow> exn + unit \<Rightarrow> exn + job \<Rightarrow> exn + row list \<Rightarrow> libraries"
where
  "answering submitted loaded sent results =
     \<lparr>frame_error = (\<lambda>records. None),
      load_table_from_dataframe = (\<lambda>data table_ref job_config. submitted),
      load_job_result = (\<lambda>load_job. loaded),
      client_query = (\<lambda>text job_config. sent),
      query_job_result = (\<lambda>query_job. results)\<rparr>"

fun has_surrogate :: "string \<Rightarrow> bool" where
  "has_surrogate (a # b # cs) =
     ((a = CHR 0xED \<and> (0xA0 :: nat) \<le> of_char b) \<or> has_surrogate (b # cs))"
| "has_surrogate _ = False"

definition refusing_surrogates :: "libraries \<Rightarrow> libraries" where
  "refusing_surrogates bq =
     bq\<lparr>frame_error :=
          (\<lambda>records.
             if list_ex (list_ex (\<lambda>(column, v).
                                    case v of PStr s \<Rightarrow> has_surrogate s | _ \<Rightarrow> False))
                        records
             then Some UnicodeEncodeError else None)\<rparr>"

section \<open>Concrete instances\<close>

text \<open>
  The payload of the first scenario of the specification, and a table holding the prior
  events of its third scenario (three clicks on Home and one on Settings by \<^verbatim>\<open>u1\<close>) among
  a click of another user, as rows of the shape \<^verbatim>\<open>track_click\<close> loads.
\<close>

definition home_click :: "(string \<times> pyval) list" where
  "home_click =
     [(''user_id'', PStr ''u1''), (''tab_name'', PStr ''Home''), (''session_id'', PStr ''s1''),
      (''app_version'', PStr ''1.0''), (''device_info'', PStr ''iPhone14'')]"

text \<open>The same payload with the lone surrogate U+D800 as its \<^verbatim>\<open>user_id\<close>.\<close>

definition surrogate_click :: "(string \<times> pyval) list" where
  "surrogate_click =
     [(''user_id'', PStr [CHR 0xED, CHR 0xA0, CHR 0x80]), (''tab_name'', PStr ''Home''),
      (''session_id'', PStr ''s1''), (''app_version'', PStr ''1.0''),
      (''device_info'', PStr ''iPhone14'')]"




section \<open>Properties\<close>

subsection \<open>The validator\<close>

lemma all_in_dict:
  "all_in fs (PDict kvs) = Inr (set fs \<subseteq> dom (map_of kvs))"
  by (induction fs) (auto simp: domIff split: bool.splits)

lemma all_in_list:
  "all_in fs (PList xs) = Inr (\<forall>f \<in> set fs. PStr f \<in> set xs)"
  by (induction fs) (auto split: bool.splits)

lemma all_in_str:
  "all_in fs (PStr s) = Inr (\<forall>f \<in> set fs. is_substring f s)"
  by (induction fs) (auto split: bool.splits)

lemma validate_dict:
  "validate_click_data (PDict kvs) = Inr (set required_fields \<subseteq> dom (map_of kvs))"
  by (simp add: validate_click_data_def all_in_dict)

lemma validate_list:
  "validate_click_data (PList xs) = Inr (\<forall>f \<in> set required_fields. PStr f \<in> set xs)"
  by (simp only: validate_click_data_def all_in_list)

lemma validate_str:
  "validate_click_data (PStr s) = Inr (\<forall>f \<in> set required_fields. is_substring f s)"
  by (simp only: validate_click_data_def all_in_str)

text \<open>
  C4. On every dictionary the validator returns (it does not raise), and the value is
  true exactly when each of the five names \<^verbatim>\<open>user_id\<close>, \<^verbatim>\<open>tab_name\<close>, \<^verbatim>\<open>session_id\<close>,
  \<^verbatim>\<open>app_version\<close>, \<^verbatim>\<open>device_info\<close> is a key of it. The values stored under the keys are
  arbitrary and are not inspected; the validator is a function of its argument alone, so
  it has no effect.
\<close>

theorem validate_click_data_iff_keys_present:
  "validate_click_data (PDict kvs) =
     Inr ({''user_id'', ''tab_name'', ''session_id'', ''app_version'', ''device_info''}
            \<subseteq> dom (map_of kvs))"
  by (simp add: validate_click_data_def required_fields_def all_in_dict)

theorem validate_click_data_iff_keys_present_witness:
  "validate_click_data (PDict home_click) = Inr True \<and>
   validate_click_data (PDict [(''user_id'', PStr ''u1'')]) = Inr False \<and>
   validate_click_data
     (PDict [(''user_id'', PNone), (''tab_name'', PInt 7), (''session_id'', PList []),
             (''app_version'', PDict []), (''device_info'', PBool False)]) = Inr True"
  by (simp add: validate_click_data_iff_keys_present home_click_def)

subsection \<open>The load operation\<close>

lemma loads_append: "loads (xs @ ys) = loads xs @ loads ys"
  by (induction xs rule: loads.induct) simp_all

lemma loads_load_data:
  "loads (snd (load_data bq data dataset_id table_id)) =
     [(data, PROJECT_ID @ ''.'' @ dataset_id @ ''.'' @ table_id,
       \<lparr>write_disposition = WRITE_APPEND,
        schema = [SchemaField ''user_id'' ''STRING'',
                  SchemaField ''tab_name'' ''STRING'',
                  SchemaField ''click_timestamp'' ''TIMESTAMP'',
                  SchemaField ''session_id'' ''STRING'',
                  SchemaField ''app_version'' ''STRING'',
                  SchemaField ''device_info'' ''STRING'']\<rparr>)]"
  by (simp add: load_data_def Let_def split: sum.splits)

text \<open>
  C7. Every call of \<^verbatim>\<open>load_data\<close> calls \<^verbatim>\<open>load_table_from_dataframe\<close> exactly once, with
  the data it was given, the table reference \<^verbatim>\<open>PROJECT_ID.dataset_id.table_id\<close> and a job
  configuration of write disposition \<^verbatim>\<open>WRITE_APPEND\<close> and the six columns \<^verbatim>\<open>user_id\<close> STRING,
  \<^verbatim>\<open>tab_name\<close> STRING, \<^verbatim>\<open>click_timestamp\<close> TIMESTAMP, \<^verbatim>\<open>session_id\<close> STRING, \<^verbatim>\<open>app_version\<close>
  STRING, \<^verbatim>\<open>device_info\<close> STRING. It returns only after the submission gave a job and
  \<^verbatim>\<open>load_job.result()\<close> returned on that job. Otherwise it raises the exception of the
  submission or of the awaited job, after logging it: the caller sees completion or
  failure.
\<close>

theorem load_data_submits_once_and_awaits:
  fixes bq data dataset_id table_id
  defines "table_ref \<equiv> PROJECT_ID @ ''.'' @ dataset_id @ ''.'' @ table_id"
    and "job_config \<equiv>
       \<lparr>write_disposition = WRITE_APPEND,
        schema = [SchemaField ''user_id'' ''STRING'',
                  SchemaField ''tab_name'' ''STRING'',
                  SchemaField ''click_timestamp'' ''TIMESTAMP'',
                  SchemaField ''session_id'' ''STRING'',
                  SchemaField ''app_version'' ''STRING'',
                  SchemaField ''device_info'' ''STRING'']\<rparr>"
    and "outcome \<equiv> load_data bq data dataset_id table_id"
  shows "loads (snd outcome) = [(data, table_ref, job_config)] \<and>
   (fst outcome = Inr () \<longrightarrow>
      (\<exists>load_job message.
         load_table_from_dataframe bq data table_ref job_config = Inr load_job \<and>
         load_job_result bq load_job = Inr () \<and>
         snd outcome =
           [Load_table_from_dataframe data table_ref job_config,
            Load_job_result load_job, Logger_info message])) \<and>
   (\<forall>e. fst outcome = Inl e \<longrightarrow>
      (load_table_from_dataframe bq data table_ref job_config = Inl e \<or>
       (\<exists>load_job.
          load_table_from_dataframe bq data table_ref job_config = Inr load_job \<and>
          load_job_result bq load_job = Inl e \<and>
          Load_job_result load_job \<in> set (snd outcome))) \<and>
      last (snd outcome) = Logger_error ''Failed to load data to BigQuery: '' e)"
  unfolding table_ref_def job_config_def outcome_def
  by (auto simp: load_data_def Let_def split: sum.splits)

theorem load_data_submits_once_and_awaits_witness:
  "loads (snd (load_data (answering (Inr 7) (Inr ()) (Inr 1) (Inr []))
                 [home_click] DATASET_ID TABLE_ID)) =
     [([home_click], ''your-project-id.analytics_dataset.tab_clicks'',
       \<lparr>write_disposition = WRITE_APPEND,
        schema = [SchemaField ''user_id'' ''STRING'',
                  SchemaField ''tab_name'' ''STRING'',
                  SchemaField ''click_timestamp'' ''TIMESTAMP'',
                  SchemaField ''session_id'' ''STRING'',
                  SchemaField ''app_version'' ''STRING'',
                  SchemaField ''device_info'' ''STRING'']\<rparr>)] \<and>
   last (snd (load_data (answering (Inr 7) (Inl (Raised ''quota exceeded'')) (Inr 1) (Inr []))
                [home_click] DATASET_ID TABLE_ID)) =
     Logger_error ''Failed to load data to BigQuery: '' (Raised ''quota exceeded'')"
proof -
  have raised:
    "fst (load_data (answering (Inr 7) (Inl (Raised ''quota exceeded'')) (Inr 1) (Inr []))
            [home_click] DATASET_ID TABLE_ID) = Inl (Raised ''quota exceeded'')"
    by (simp add: load_data_def answering_def)
  from load_data_submits_once_and_awaits
         [of "answering (Inr 7) (Inr ()) (Inr 1) (Inr [])" "[home_click]" DATASET_ID TABLE_ID]
       load_data_submits_once_and_awaits
         [of "answering (Inr 7) (Inl (Raised ''quota exceeded'')) (Inr 1) (Inr [])"
             "[home_click]" DATASET_ID TABLE_ID]
       raised
  show ?thesis
    by (simp add: PROJECT_ID_def DATASET_ID_def TABLE_ID_def)
qed

subsection \<open>The ingest handler\<close>

lemma click_row_dict:
  assumes "map_of kvs ''user_id'' = Some u" "map_of kvs ''tab_name'' = Some t"
    "map_of kvs ''session_id'' = Some s" "map_of kvs ''app_version'' = Some a"
    "map_of kvs ''device_info'' = Some d"
  shows "click_row (PDict kvs) now =
     Inr [(''user_id'', u), (''tab_name'', t), (''click_timestamp'', PDatetime now),
          (''session_id'', s), (''app_version'', a), (''device_info'', d)]"
  using assms by (simp add: click_row_def)

lemma click_row_valid:
  assumes "click_row data now = Inr r"
  shows "validate_click_data data = Inr True"
proof (cases data)
  case (PDict kvs)
  with assms show ?thesis
    by (auto simp: click_row_def validate_dict required_fields_def
        split: option.splits sum.splits)
qed (use assms in \<open>simp_all add: click_row_def\<close>)

lemma track_click_get_json_raised:
  "track_click bq now (Inl e) =
     ((PDict [(''error'', PStr ''Internal server error'')], 500),
      [Logger_error ''Error processing click event: '' e])"
  by (simp add: track_click_def track_click_try_def)

lemma track_click_validate_raised:
  assumes "validate_click_data data = Inl e"
  shows "track_click bq now (Inr data) =
     ((PDict [(''error'', PStr ''Internal server error'')], 500),
      [Logger_error ''Error processing click event: '' e])"
  using assms by (simp add: track_click_def track_click_try_def)

lemma track_click_subscript_raised:
  assumes "validate_click_data data = Inr b" "click_row data now = Inl e"
  shows "track_click bq now (Inr data) =
     (if b then ((PDict [(''error'', PStr ''Internal server error'')], 500),
                 [Logger_error ''Error processing click event: '' e])
      else ((PDict [(''error'', PStr ''Missing required fields'')], 400), []))"
  using assms by (simp add: track_click_def track_click_try_def)

lemma DataFrame_built:
  assumes "DataFrame bq records = Inr df"
  shows "df = records"
  using assms by (simp add: DataFrame_def split: option.splits)

lemma DataFrame_answering:
  "DataFrame (answering submitted loaded sent results) records = Inr records"
  by (simp add: DataFrame_def answering_def)

lemma track_click_frame_raised:
  assumes "validate_click_data data = Inr True" "click_row data now = Inr r"
    "DataFrame bq [r] = Inl e"
  shows "track_click bq now (Inr data) =
     ((PDict [(''error'', PStr ''Internal server error'')], 500),
      [Logger_error ''Error processing click event: '' e])"
  using assms by (simp add: track_click_def track_click_try_def)

lemma track_click_returned:
  assumes "validate_click_data data = Inr True" "click_row data now = Inr r"
    "DataFrame bq [r] = Inr df"
    "fst (load_data bq df DATASET_ID TABLE_ID) = Inr x"
  shows "track_click bq now (Inr data) =
     ((PDict [(''status'', PStr ''success''),
              (''message'', PStr ''Click event recorded successfully'')], 200),
      snd (load_data bq df DATASET_ID TABLE_ID))"
  using assms by (cases "load_data bq df DATASET_ID TABLE_ID")
    (simp add: track_click_def track_click_try_def)

lemma track_click_raised:
  assumes "validate_click_data data = Inr True" "click_row data now = Inr r"
    "DataFrame bq [r] = Inr df"
    "fst (load_data bq df DATASET_ID TABLE_ID) = Inl e"
  shows "track_click bq now (Inr data) =
     ((PDict [(''error'', PStr ''Internal server error'')], 500),
      snd (load_data bq df DATASET_ID TABLE_ID)
        @ [Logger_error ''Error processing click event: '' e])"
  using assms by (cases "load_data bq df DATASET_ID TABLE_ID")
    (simp add: track_click_def track_click_try_def)

lemma loads_track_click:
  assumes "validate_click_data data = Inr True" "click_row data now = Inr r"
    "DataFrame bq [r] = Inr df"
  shows "loads (snd (track_click bq now (Inr data))) =
     loads (snd (load_data bq df DATASET_ID TABLE_ID))"
proof (cases "fst (load_data bq df DATASET_ID TABLE_ID)")
  case (Inl e)
  show ?thesis by (simp add: track_click_raised [OF assms Inl] loads_append)
next
  case (Inr x)
  show ?thesis by (simp add: track_click_returned [OF assms Inr])
qed

text \<open>
  C1. When the parsed body is a dictionary that has the five required keys and
  \<^verbatim>\<open>pd.DataFrame\<close> builds the frame of the one row made from it, the handler hands the
  warehouse exactly one batch, and that batch has exactly one row: the five values of the
  payload under their names and the reading of the clock under \<^verbatim>\<open>click_timestamp\<close>. When
  \<^verbatim>\<open>load_data\<close> then returns, the response is status 200 with the body
  \<^verbatim>\<open>{"status": "success", "message": "Click event recorded successfully"}\<close>. When
  \<^verbatim>\<open>pd.DataFrame\<close> raises instead, the response is status 500 with the body
  \<^verbatim>\<open>{"error": "Internal server error"}\<close> and no SDK call is made.
\<close>

theorem track_click_records_valid_payload:
  assumes "map_of kvs ''user_id'' = Some u" "map_of kvs ''tab_name'' = Some t"
    "map_of kvs ''session_id'' = Some s" "map_of kvs ''app_version'' = Some a"
    "map_of kvs ''device_info'' = Some d"
  shows "(let r = [(''user_id'', u), (''tab_name'', t), (''click_timestamp'', PDatetime now),
                   (''session_id'', s), (''app_version'', a), (''device_info'', d)]
          in (DataFrame bq [r] = Inr [r] \<longrightarrow>
                map fst (loads (snd (track_click bq now (Inr (PDict kvs))))) = [[r]] \<and>
                (fst (load_data bq [r] DATASET_ID TABLE_ID) = Inr () \<longrightarrow>
                 fst (track_click bq now (Inr (PDict kvs))) =
                   (PDict [(''status'', PStr ''success''),
                           (''message'', PStr ''Click event recorded successfully'')], 200))) \<and>
             (\<forall>e. DataFrame bq [r] = Inl e \<longrightarrow>
                track_click bq now (Inr (PDict kvs)) =
                  ((PDict [(''error'', PStr ''Internal server error'')], 500),
                   [Logger_error ''Error processing click event: '' e])))"
proof -
  have v: "validate_click_data (PDict kvs) = Inr True"
    using assms by (auto simp: validate_dict required_fields_def)
  note r = click_row_dict [OF assms, of now]
  show ?thesis
    unfolding Let_def
    by (simp add: loads_track_click [OF v r] loads_load_data track_click_returned [OF v r]
        track_click_frame_raised [OF v r])
qed

text \<open>
  Exactly one load for every payload with the five keys does not hold: on the payload
  whose \<^verbatim>\<open>user_id\<close> is the lone surrogate U+D800, with a pandas that refuses it, the
  validator accepts the payload, the response is 500 and nothing is handed to the
  warehouse.
\<close>

theorem track_click_surrogate_counterexample:
  "validate_click_data (PDict surrogate_click) = Inr True \<and>
   track_click (refusing_surrogates (answering (Inr 0) (Inr ()) (Inr 1) (Inr [])))
      1730000000000000 (Inr (PDict surrogate_click)) =
     ((PDict [(''error'', PStr ''Internal server error'')], 500),
      [Logger_error ''Error processing click event: '' UnicodeEncodeError]) \<and>
   loads (snd (track_click (refusing_surrogates (answering (Inr 0) (Inr ()) (Inr 1) (Inr [])))
      1730000000000000 (Inr (PDict surrogate_click)))) = []"
  by (simp add: track_click_def track_click_try_def validate_click_data_def required_fields_def
      click_row_def surrogate_click_def DataFrame_def refusing_surrogates_def answering_def)

theorem track_click_records_valid_payload_witness:
  "map fst (loads (snd (track_click (answering (Inr 0) (Inr ()) (Inr 1) (Inr []))
      1730000000000000 (Inr (PDict home_click))))) =
     [[[(''user_id'', PStr ''u1''), (''tab_name'', PStr ''Home''),
        (''click_timestamp'', PDatetime 1730000000000000), (''session_id'', PStr ''s1''),
        (''app_version'', PStr ''1.0''), (''device_info'', PStr ''iPhone14'')]]] \<and>
   fst (track_click (answering (Inr 0) (Inr ()) (Inr 1) (Inr [])) 1730000000000000
      (Inr (PDict home_click))) =
     (PDict [(''status'', PStr ''success''),
             (''message'', PStr ''Click event recorded successfully'')], 200)"
proof -
  let ?bq = "answering (Inr 0) (Inr ()) (Inr 1) (Inr [])"
  let ?r = "[(''user_id'', PStr ''u1''), (''tab_name'', PStr ''Home''),
             (''click_timestamp'', PDatetime 1730000000000000), (''session_id'', PStr ''s1''),
             (''app_version'', PStr ''1.0''), (''device_info'', PStr ''iPhone14'')]"
  have built: "DataFrame ?bq [?r] = Inr [?r]"
    by (rule DataFrame_answering)
  have loaded: "fst (load_data ?bq [?r] DATASET_ID TABLE_ID) = Inr ()"
    by (simp add: load_data_def answering_def Let_def)
  from track_click_records_valid_payload
         [of home_click "PStr ''u1''" "PStr ''Home''" "PStr ''s1''" "PStr ''1.0''"
             "PStr ''iPhone14''" 1730000000000000 ?bq, unfolded Let_def]
       built loaded
  show ?thesis
    by (simp add: home_click_def)
qed

text \<open>
  C2. When the parsed body is a dictionary that lacks at least one of the five required
  keys, the response is status 400 with the body \<^verbatim>\<open>{"error": "Missing required fields"}\<close>,
  and the call has no effect at all: no SDK call is made, so no load job is submitted.
\<close>

theorem track_click_rejects_missing_fields:
  assumes "\<not> set required_fields \<subseteq> dom (map_of kvs)"
  shows "track_click bq now (Inr (PDict kvs)) =
     ((PDict [(''error'', PStr ''Missing required fields'')], 400), [])"
  using assms by (simp add: track_click_def track_click_try_def validate_dict)

theorem track_click_rejects_missing_fields_witness:
  "track_click (answering (Inr 0) (Inr ()) (Inr 1) (Inr [])) 1730000000000000
     (Inr (PDict [(''user_id'', PStr ''u1'')])) =
     ((PDict [(''error'', PStr ''Missing required fields'')], 400), [])"
  by (rule track_click_rejects_missing_fields) (simp add: required_fields_def)

text \<open>
  C10. Two payloads that have the five required keys and agree on their values are
  handled alike by the same client at the same clock reading: the same response and the
  same effects, hence the same row. Every row handed to the warehouse has the six
  columns and no other, so a further key of the payload is never persisted.
\<close>

theorem track_click_row_depends_on_required_fields:
  assumes "set required_fields \<subseteq> dom (map_of kvs)"
    and "\<forall>f \<in> set required_fields. map_of kvs' f = map_of kvs f"
  shows "track_click bq now (Inr (PDict kvs')) = track_click bq now (Inr (PDict kvs)) \<and>
    (\<forall>(data, table_ref, job_config) \<in> set (loads (snd (track_click bq now (Inr (PDict kvs'))))).
       \<forall>r \<in> set data.
         map fst r = [''user_id'', ''tab_name'', ''click_timestamp'', ''session_id'',
                      ''app_version'', ''device_info''])"
proof -
  from assms(1) obtain u t s a d where k:
    "map_of kvs ''user_id'' = Some u" "map_of kvs ''tab_name'' = Some t"
    "map_of kvs ''session_id'' = Some s" "map_of kvs ''app_version'' = Some a"
    "map_of kvs ''device_info'' = Some d"
    by (auto simp: required_fields_def)
  with assms(2) have k':
    "map_of kvs' ''user_id'' = Some u" "map_of kvs' ''tab_name'' = Some t"
    "map_of kvs' ''session_id'' = Some s" "map_of kvs' ''app_version'' = Some a"
    "map_of kvs' ''device_info'' = Some d"
    by (simp_all add: required_fields_def)
  note r = click_row_dict [OF k, of now] and r' = click_row_dict [OF k', of now]
  note v = click_row_valid [OF r] and v' = click_row_valid [OF r']
  have same: "track_click bq now (Inr (PDict kvs')) = track_click bq now (Inr (PDict kvs))"
    by (simp add: track_click_def track_click_try_def v v' r r')
  show ?thesis
  proof (cases "DataFrame bq
      [[(''user_id'', u), (''tab_name'', t), (''click_timestamp'', PDatetime now),
        (''session_id'', s), (''app_version'', a), (''device_info'', d)]]")
    case (Inl e)
    from track_click_frame_raised [OF v' r' Inl] same show ?thesis
      by simp
  next
    case (Inr df)
    from loads_track_click [OF v' r' Inr] DataFrame_built [OF Inr] same show ?thesis
      by (simp add: loads_load_data)
  qed
qed

theorem track_click_row_depends_on_required_fields_witness:
  "track_click (answering (Inr 0) (Inr ()) (Inr 1) (Inr [])) 1730000000000000
      (Inr (PDict ((''is_admin'', PBool True) # home_click))) =
   track_click (answering (Inr 0) (Inr ()) (Inr 1) (Inr [])) 1730000000000000
      (Inr (PDict home_click))"
  using track_click_row_depends_on_required_fields
    [of home_click "(''is_admin'', PBool True) # home_click"
        "answering (Inr 0) (Inr ()) (Inr 1) (Inr [])" 1730000000000000]
  by (simp add: home_click_def required_fields_def)

text \<open>
  C9. A request whose body gives no dictionary is answered in one of two
  ways. When \<^verbatim>\<open>request.get_json()\<close> raises, or yields \<^verbatim>\<open>None\<close>, a boolean or a number, the
  response is status 500 with the body \<^verbatim>\<open>{"error": "Internal server error"}\<close>: the
  membership test of the validator raises \<^verbatim>\<open>TypeError\<close> on a value that is no container.
  When it yields a list or a string, the membership test does not raise (element
  equality, substring search): the response is status 400 with the body
  \<^verbatim>\<open>{"error": "Missing required fields"}\<close>, unless every required name is an element of
  the list (a substring of the string); then the subscript \<^verbatim>\<open>data['user_id']\<close> raises
  \<^verbatim>\<open>TypeError\<close> and the response is status 500. In no case is an SDK call made.
\<close>

theorem track_click_without_mapping:
  "track_click bq now (Inl e) =
     ((PDict [(''error'', PStr ''Internal server error'')], 500),
      [Logger_error ''Error processing click event: '' e]) \<and>
   (data = PNone \<or> data = PBool b \<or> data = PInt i \<or> data = PFloat x \<longrightarrow>
      track_click bq now (Inr data) =
        ((PDict [(''error'', PStr ''Internal server error'')], 500),
         [Logger_error ''Error processing click event: '' TypeError])) \<and>
   track_click bq now (Inr (PList xs)) =
     (if \<forall>f \<in> set required_fields. PStr f \<in> set xs
      then ((PDict [(''error'', PStr ''Internal server error'')], 500),
            [Logger_error ''Error processing click event: '' TypeError])
      else ((PDict [(''error'', PStr ''Missing required fields'')], 400), [])) \<and>
   track_click bq now (Inr (PStr s)) =
     (if \<forall>f \<in> set required_fields. is_substring f s
      then ((PDict [(''error'', PStr ''Internal server error'')], 500),
            [Logger_error ''Error processing click event: '' TypeError])
      else ((PDict [(''error'', PStr ''Missing required fields'')], 400), []))"
proof (intro conjI impI)
  show "track_click bq now (Inl e) =
      ((PDict [(''error'', PStr ''Internal server error'')], 500),
       [Logger_error ''Error processing click event: '' e])"
    by (rule track_click_get_json_raised)
next
  assume "data = PNone \<or> data = PBool b \<or> data = PInt i \<or> data = PFloat x"
  then have "validate_click_data data = Inl TypeError"
    by (auto simp: validate_click_data_def required_fields_def)
  then show "track_click bq now (Inr data) =
        ((PDict [(''error'', PStr ''Internal server error'')], 500),
         [Logger_error ''Error processing click event: '' TypeError])"
    by (rule track_click_validate_raised)
next
  have "click_row (PList xs) now = Inl TypeError"
    by (simp add: click_row_def)
  from track_click_subscript_raised [OF validate_list this]
  show "track_click bq now (Inr (PList xs)) =
     (if \<forall>f \<in> set required_fields. PStr f \<in> set xs
      then ((PDict [(''error'', PStr ''Internal server error'')], 500),
            [Logger_error ''Error processing click event: '' TypeError])
      else ((PDict [(''error'', PStr ''Missing required fields'')], 400), []))" .
next
  have "click_row (PStr s) now = Inl TypeError"
    by (simp add: click_row_def)
  from track_click_subscript_raised [OF validate_str this]
  show "track_click bq now (Inr (PStr s)) =
     (if \<forall>f \<in> set required_fields. is_substring f s
      then ((PDict [(''error'', PStr ''Internal server error'')], 500),
            [Logger_error ''Error processing click event: '' TypeError])
      else ((PDict [(''error'', PStr ''Missing required fields'')], 400), []))" .
qed

text \<open>
  Status 500 for every body that is no JSON object does not hold: on the body \<^verbatim>\<open>[]\<close> the
  response is 400.
\<close>

theorem track_click_empty_array_counterexample:
  "track_click (answering (Inr 0) (Inr ()) (Inr 1) (Inr [])) 1730000000000000 (Inr (PList [])) =
     ((PDict [(''error'', PStr ''Missing required fields'')], 400), []) \<and>
   fst (track_click (answering (Inr 0) (Inr ()) (Inr 1) (Inr [])) 1730000000000000
          (Inr (PList [])))
     \<noteq> (PDict [(''error'', PStr ''Internal server error'')], 500)"
  by (simp add: track_click_def track_click_try_def validate_click_data_def required_fields_def)

theorem track_click_without_mapping_witness:
  "track_click (answering (Inr 0) (Inr ()) (Inr 1) (Inr [])) 1730000000000000 (Inr PNone) =
     ((PDict [(''error'', PStr ''Internal server error'')], 500),
      [Logger_error ''Error processing click event: '' TypeError]) \<and>
   track_click (answering (Inr 0) (Inr ()) (Inr 1) (Inr [])) 1730000000000000
       (Inr (PStr ''user_id'')) =
     ((PDict [(''error'', PStr ''Missing required fields'')], 400), []) \<and>
   track_click (answering (Inr 0) (Inr ()) (Inr 1) (Inr [])) 1730000000000000
       (Inr (PList [PStr ''device_info'', PStr ''app_version'', PStr ''session_id'',
                    PStr ''tab_name'', PStr ''user_id''])) =
     ((PDict [(''error'', PStr ''Internal server error'')], 500),
      [Logger_error ''Error processing click event: '' TypeError])"
  using track_click_without_mapping
      [of "answering (Inr 0) (Inr ()) (Inr 1) (Inr [])" 1730000000000000 undefined PNone
          undefined undefined undefined
          "[PStr ''device_info'', PStr ''app_version'', PStr ''session_id'',
            PStr ''tab_name'', PStr ''user_id'']" "''user_id''"]
  by (simp add: required_fields_def)

subsection \<open>The read handler\<close>

lemma get_user_clicks_query_raised:
  assumes "client_query bq query
     \<lparr>query_parameters = [ScalarQueryParameter ''user_id'' ''STRING'' (PStr user_id)]\<rparr> = Inl e"
  shows "get_user_clicks bq user_id =
     ((PDict [(''error'', PStr ''Internal server error'')], 500),
      [Client_query query
         \<lparr>query_parameters = [ScalarQueryParameter ''user_id'' ''STRING'' (PStr user_id)]\<rparr>,
       Logger_error ''Error retrieving click statistics: '' e])"
  using assms by (simp add: get_user_clicks_def get_user_clicks_try_def)

lemma get_user_clicks_result_raised:
  assumes "client_query bq query
     \<lparr>query_parameters = [ScalarQueryParameter ''user_id'' ''STRING'' (PStr user_id)]\<rparr> = Inr j"
    "query_job_result bq j = Inl e"
  shows "get_user_clicks bq user_id =
     ((PDict [(''error'', PStr ''Internal server error'')], 500),
      [Client_query query
         \<lparr>query_parameters = [ScalarQueryParameter ''user_id'' ''STRING'' (PStr user_id)]\<rparr>,
       Query_job_result j,
       Logger_error ''Error retrieving click statistics: '' e])"
  using assms by (simp add: get_user_clicks_def get_user_clicks_try_def)


lemma queries_get_user_clicks:
  "queries (snd (get_user_clicks bq user_id)) =
     [(query, \<lparr>query_parameters = [ScalarQueryParameter ''user_id'' ''STRING'' (PStr user_id)]\<rparr>)]"
  by (simp add: get_user_clicks_def get_user_clicks_try_def Let_def split: sum.splits)

text \<open>
  C6. Whatever the \<^verbatim>\<open>user_id\<close> and whatever the warehouse answers, the handler sends one
  query, and its text is the same: the text built from the three configuration constants,
  with the placeholder \<^verbatim>\<open>@user_id\<close>. The \<^verbatim>\<open>user_id\<close> of the request travels only as the value
  of the one query parameter, named \<^verbatim>\<open>user_id\<close> and typed \<^verbatim>\<open>STRING\<close>.
\<close>

theorem get_user_clicks_query_text_fixed:
  "map fst (queries (snd (get_user_clicks bq user_id))) =
     map fst (queries (snd (get_user_clicks bq' user_id'))) \<and>
   queries (snd (get_user_clicks bq user_id)) =
     [(query,
       \<lparr>query_parameters = [ScalarQueryParameter ''user_id'' ''STRING'' (PStr user_id)]\<rparr>)] \<and>
   query =
     ''\<newline>        SELECT tab_name, COUNT(*) as click_count'' @
     ''\<newline>        FROM `your-project-id.analytics_dataset.tab_clicks`'' @
     ''\<newline>        WHERE user_id = @user_id'' @
     ''\<newline>        GROUP BY tab_name'' @
     ''\<newline>        ORDER BY click_count DESC'' @
     ''\<newline>        ''"
  by (simp add: queries_get_user_clicks query_def PROJECT_ID_def DATASET_ID_def TABLE_ID_def)

theorem get_user_clicks_query_text_fixed_witness:
  "map fst (queries (snd (get_user_clicks (answering (Inr 0) (Inr ()) (Inr 1) (Inr [])) ''u1''))) =
   map fst (queries (snd (get_user_clicks
      (answering (Inr 0) (Inr ()) (Inl (Raised ''syntax error'')) (Inr [])) ''x OR 1 = 1'')))"
  by (rule get_user_clicks_query_text_fixed [THEN conjunct1])











subsection \<open>Failures of the warehouse\<close>

text \<open>
  C3. Ingest: when the frame is built from the payload and \<^verbatim>\<open>load_data\<close> raises on it, the
  response is status 500 with exactly the body \<^verbatim>\<open>{"error": "Internal server error"}\<close>.
  Read: when \<^verbatim>\<open>client.query\<close> raises, or gives a job whose \<^verbatim>\<open>result()\<close> raises, the response
  is the same. The response is the same for every exception, so it holds nothing of the
  exception; the exception goes to the log, in the last line the handler writes.
\<close>

theorem handlers_answer_500_when_warehouse_raises:
  "(click_row data now = Inr r \<and> DataFrame bq [r] = Inr df \<and>
    fst (load_data bq df DATASET_ID TABLE_ID) = Inl e \<longrightarrow>
      fst (track_click bq now (Inr data)) =
        (PDict [(''error'', PStr ''Internal server error'')], 500) \<and>
      last (snd (track_click bq now (Inr data))) =
        Logger_error ''Error processing click event: '' e) \<and>
   (client_query bq query
        \<lparr>query_parameters = [ScalarQueryParameter ''user_id'' ''STRING'' (PStr user_id)]\<rparr>
        = Inl e \<or>
    (\<exists>query_job.
        client_query bq query
          \<lparr>query_parameters = [ScalarQueryParameter ''user_id'' ''STRING'' (PStr user_id)]\<rparr>
          = Inr query_job \<and>
        query_job_result bq query_job = Inl e) \<longrightarrow>
      fst (get_user_clicks bq user_id) =
        (PDict [(''error'', PStr ''Internal server error'')], 500) \<and>
      last (snd (get_user_clicks bq user_id)) =
        Logger_error ''Error retrieving click statistics: '' e)"
proof (intro conjI impI)
  assume a: "click_row data now = Inr r \<and> DataFrame bq [r] = Inr df \<and>
    fst (load_data bq df DATASET_ID TABLE_ID) = Inl e"
  then have r: "click_row data now = Inr r"
    and f: "DataFrame bq [r] = Inr df"
    and l: "fst (load_data bq df DATASET_ID TABLE_ID) = Inl e"
    by simp_all
  note v = click_row_valid [OF r]
  have *: "track_click bq now (Inr data) =
     ((PDict [(''error'', PStr ''Internal server error'')], 500),
      snd (load_data bq df DATASET_ID TABLE_ID)
        @ [Logger_error ''Error processing click event: '' e])"
    by (rule track_click_raised [OF v r f l])
  show "fst (track_click bq now (Inr data)) =
        (PDict [(''error'', PStr ''Internal server error'')], 500)"
    by (simp add: *)
  show "last (snd (track_click bq now (Inr data))) =
        Logger_error ''Error processing click event: '' e"
    by (simp add: *)
next
  assume a: "client_query bq query
        \<lparr>query_parameters = [ScalarQueryParameter ''user_id'' ''STRING'' (PStr user_id)]\<rparr>
        = Inl e \<or>
    (\<exists>query_job.
        client_query bq query
          \<lparr>query_parameters = [ScalarQueryParameter ''user_id'' ''STRING'' (PStr user_id)]\<rparr>
          = Inr query_job \<and>
        query_job_result bq query_job = Inl e)"
  then show "fst (get_user_clicks bq user_id) =
        (PDict [(''error'', PStr ''Internal server error'')], 500)"
    by (auto simp: get_user_clicks_query_raised get_user_clicks_result_raised)
  from a show "last (snd (get_user_clicks bq user_id)) =
        Logger_error ''Error retrieving click statistics: '' e"
    by (auto simp: get_user_clicks_query_raised get_user_clicks_result_raised)
qed

theorem handlers_answer_500_when_warehouse_raises_witness:
  "fst (track_click (answering (Inr 0) (Inl (Raised ''403 Access Denied'')) (Inr 1) (Inr []))
          1730000000000000 (Inr (PDict home_click))) =
     (PDict [(''error'', PStr ''Internal server error'')], 500) \<and>
   last (snd (track_click (answering (Inr 0) (Inl (Raised ''403 Access Denied'')) (Inr 1) (Inr []))
          1730000000000000 (Inr (PDict home_click)))) =
     Logger_error ''Error processing click event: '' (Raised ''403 Access Denied'') \<and>
   fst (get_user_clicks (answering (Inr 0) (Inr ()) (Inr 1) (Inl (Raised ''403 Access Denied'')))
          ''u1'') =
     (PDict [(''error'', PStr ''Internal server error'')], 500) \<and>
   last (snd (get_user_clicks (answering (Inr 0) (Inr ()) (Inr 1) (Inl (Raised ''403 Access Denied'')))
          ''u1'')) =
     Logger_error ''Error retrieving click statistics: '' (Raised ''403 Access Denied'')"
  using handlers_answer_500_when_warehouse_raises
      [of "PDict home_click" 1730000000000000
          "[(''user_id'', PStr ''u1''), (''tab_name'', PStr ''Home''),
            (''click_timestamp'', PDatetime 1730000000000000), (''session_id'', PStr ''s1''),
            (''app_version'', PStr ''1.0''), (''device_info'', PStr ''iPhone14'')]"
          "answering (Inr 0) (Inl (Raised ''403 Access Denied'')) (Inr 1) (Inr [])"
          "[[(''user_id'', PStr ''u1''), (''tab_name'', PStr ''Home''),
             (''click_timestamp'', PDatetime 1730000000000000), (''session_id'', PStr ''s1''),
             (''app_version'', PStr ''1.0''), (''device_info'', PStr ''iPhone14'')]]"
          "Raised ''403 Access Denied''" "''u1''"]
    handlers_answer_500_when_warehouse_raises
      [of undefined 0 undefined
          "answering (Inr 0) (Inr ()) (Inr 1) (Inl (Raised ''403 Access Denied''))"
          undefined "Raised ''403 Access Denied''" "''u1''"]
  by (simp add: click_row_def home_click_def load_data_def DataFrame_def answering_def Let_def)

subsection \<open>Timestamps across calls\<close>

lemma click_row_timestamp:
  assumes "click_row data now = Inr r"
  shows "timestamp_of r = [now]"
  using assms by (auto simp: click_row_def timestamp_of_def split: sum.splits)

lemma click_timestamps_append:
  "click_timestamps (xs @ ys) = click_timestamps xs @ click_timestamps ys"
  by (simp add: click_timestamps_def loads_append)

lemma click_timestamps_track_click:
  assumes "snd (fst (track_click bq now get_json)) = 200"
  shows "click_timestamps (snd (track_click bq now get_json)) = [now]"
proof -
  from assms obtain data r df x where d: "get_json = Inr data"
    and v: "validate_click_data data = Inr True"
    and r: "click_row data now = Inr r"
    and f: "DataFrame bq [r] = Inr df"
    and l: "fst (load_data bq df DATASET_ID TABLE_ID) = Inr x"
    by (auto simp: track_click_def track_click_try_def split: sum.splits bool.splits prod.splits)
  show ?thesis
    unfolding d track_click_returned [OF v r f l]
    by (simp add: click_timestamps_def loads_load_data DataFrame_built [OF f]
        click_row_timestamp [OF r])
qed

lemma click_timestamps_track_clicks:
  assumes "\<forall>c \<in> set (track_clicks calls). snd (fst c) = 200"
  shows "click_timestamps (concat (map snd (track_clicks calls))) = map (fst \<circ> snd) calls"
  using assms
proof (induction calls rule: track_clicks.induct)
  case 1
  show ?case by (simp add: click_timestamps_def)
next
  case (2 bq now get_json calls)
  then show ?case
    by (simp add: click_timestamps_append click_timestamps_track_click)
qed

text \<open>
  C8. The timestamp a successful call assigns is the reading of the system
  clock (\<^verbatim>\<open>datetime.utcnow()\<close>) taken in that call, unchanged. So over a sequence of
  successful calls handled one after another the assigned timestamps are the clock
  readings, in order, and they are non-decreasing whenever the readings are. The handler
  does not compare a reading with an earlier one.
\<close>

theorem timestamps_are_clock_readings:
  assumes "\<forall>c \<in> set (track_clicks calls). snd (fst c) = 200"
  shows "click_timestamps (concat (map snd (track_clicks calls))) = map (fst \<circ> snd) calls \<and>
    (sorted (map (fst \<circ> snd) calls) \<longrightarrow>
       sorted (click_timestamps (concat (map snd (track_clicks calls)))))"
  by (simp add: click_timestamps_track_clicks [OF assms])

text \<open>
  Monotonicity without a condition on the clock does not hold: when the clock is set back
  between two calls, both calls succeed and the second timestamp is smaller than the first.
\<close>

theorem timestamps_clock_set_back_counterexample:
  "map (snd \<circ> fst)
     (track_clicks
        [(answering (Inr 0) (Inr ()) (Inr 1) (Inr []), 2, Inr (PDict home_click)),
         (answering (Inr 0) (Inr ()) (Inr 1) (Inr []), 1, Inr (PDict home_click))]) =
     [200, 200] \<and>
   click_timestamps (concat (map snd
     (track_clicks
        [(answering (Inr 0) (Inr ()) (Inr 1) (Inr []), 2, Inr (PDict home_click)),
         (answering (Inr 0) (Inr ()) (Inr 1) (Inr []), 1, Inr (PDict home_click))]))) =
     [2, 1] \<and>
   \<not> sorted (click_timestamps (concat (map snd
     (track_clicks
        [(answering (Inr 0) (Inr ()) (Inr 1) (Inr []), 2, Inr (PDict home_click)),
         (answering (Inr 0) (Inr ()) (Inr 1) (Inr []), 1, Inr (PDict home_click))]))))"
  by (simp add: track_click_def track_click_try_def validate_click_data_def required_fields_def
      click_row_def home_click_def load_data_def DataFrame_def answering_def
      click_timestamps_def timestamp_of_def Let_def)

theorem timestamps_are_clock_readings_witness:
  "click_timestamps (concat (map snd
     (track_clicks
        [(answering (Inr 0) (Inr ()) (Inr 1) (Inr []), 1, Inr (PDict home_click)),
         (answering (Inr 0) (Inr ()) (Inr 1) (Inr []), 2, Inr (PDict home_click))]))) =
     [1, 2] \<and>
   sorted (click_timestamps (concat (map snd
     (track_clicks
        [(answering (Inr 0) (Inr ()) (Inr 1) (Inr []), 1, Inr (PDict home_click)),
         (answering (Inr 0) (Inr ()) (Inr 1) (Inr []), 2, Inr (PDict home_click))]))))"
proof -
  have "\<forall>c \<in> set (track_clicks
        [(answering (Inr 0) (Inr ()) (Inr 1) (Inr []), 1, Inr (PDict home_click)),
         (answering (Inr 0) (Inr ()) (Inr 1) (Inr []), 2, Inr (PDict home_click))]).
          snd (fst c) = 200"
    by (simp add: track_click_def track_click_try_def validate_click_data_def required_fields_def
        click_row_def home_click_def load_data_def DataFrame_def answering_def Let_def)
  from timestamps_are_clock_readings [OF this] show ?thesis by simp
qed

end
